theory Spec2Isabelle
  imports Complex_Main "HOL-Library.Char_ord" "HOL-Library.List_Lexorder"
begin

section \<open>Data model (prisma/migrations/20251120174230_init/migration.sql)\<close>

text \<open>
  Money is held in minor units (hundredths): the columns are DECIMAL(15,2), so a balance of
  700.00 is the integer 70000. The upper bound of the column is outside the model. The
  handlers are first modelled for requests whose amount is a whole number of hundredths;
  the transfer is then modelled again for every amount its schema accepts. Timestamps and
  the never written \<^verbatim>\<open>metadata\<close> column are left out.
\<close>

datatype TransactionType = DEPOSIT | TRANSFER | WITHDRAWAL

datatype TransactionStatus = PENDING | PROCESSING | COMPLETED | FAILED

record user =
  email :: string
  name :: string
  balance :: int

record transaction =
  tid :: nat
  ttype :: TransactionType
  status :: TransactionStatus
  amount :: int
  idempotencyKey :: string
  senderId :: "string option"
  receiverId :: "string option"
  description :: "string option"
  failureReason :: "string option"

text \<open>
  The database: the User table keyed by its primary key, and the Transaction table in
  insertion order.
\<close>

record store =
  users :: "string \<rightharpoonup> user"
  transactions :: "transaction list"

section \<open>Errors and responses\<close>

text \<open>
  What a handler's \<^verbatim>\<open>try\<close> block can throw: a ZodError from \<^verbatim>\<open>schema.parse\<close>, the two
  \<^verbatim>\<open>new Error(...)\<close> of the handlers, and an error of the Prisma client: P2002 (unique
  constraint), P2025 (record to update not found), P2034 (write conflict of a serializable
  transaction).
\<close>

datatype prismaCode = P2002 | P2025 | P2034

datatype error = ZodError | USER_NOT_FOUND | INSUFFICIENT_FUNDS | PrismaError prismaCode

text \<open>
  \<^verbatim>\<open>res.status(c).json(b)\<close>: the body is a transaction row or an object whose
  \<^verbatim>\<open>error\<close> field is the given text (its \<^verbatim>\<open>details\<close> field is left out).
\<close>

datatype body = TransactionJson transaction | ErrorJson string

datatype response = Response nat body

section \<open>Validation schemas (transaction.controller.ts, lines 7-27)\<close>

definition hexDigit :: "char \<Rightarrow> bool" where
  "hexDigit c = (c \<in> set ''0123456789abcdefABCDEF'')"

text \<open>
  \<^verbatim>\<open>z.string().uuid()\<close> belongs to the zod library; it is taken here as the
  8-4-4-4-12 pattern of hexadecimal digits.
\<close>

definition uuid :: "string \<Rightarrow> bool" where
  "uuid s = (length s = 36
     \<and> list_all hexDigit (take 8 s) \<and> s ! 8 = CHR ''-''
     \<and> list_all hexDigit (take 4 (drop 9 s)) \<and> s ! 13 = CHR ''-''
     \<and> list_all hexDigit (take 4 (drop 14 s)) \<and> s ! 18 = CHR ''-''
     \<and> list_all hexDigit (take 4 (drop 19 s)) \<and> s ! 23 = CHR ''-''
     \<and> list_all hexDigit (drop 24 s))"

text \<open>
  \<^verbatim>\<open>amount: z.number().positive().min(0.01)\<close> in minor units;
  \<^verbatim>\<open>idempotencyKey: z.string().min(1)\<close>. The optional description is any string.
\<close>

definition depositSchema :: "string \<Rightarrow> int \<Rightarrow> string \<Rightarrow> bool" where
  "depositSchema userId amt key = (uuid userId \<and> 0 < amt \<and> 1 \<le> amt \<and> 1 \<le> length key)"

definition transferSchema :: "string \<Rightarrow> string \<Rightarrow> int \<Rightarrow> string \<Rightarrow> bool" where
  "transferSchema sId rId amt key =
     (uuid sId \<and> uuid rId \<and> 0 < amt \<and> 1 \<le> amt \<and> 1 \<le> length key)"

definition withdrawSchema :: "string \<Rightarrow> int \<Rightarrow> string \<Rightarrow> bool" where
  "withdrawSchema userId amt key = (uuid userId \<and> 0 < amt \<and> 1 \<le> amt \<and> 1 \<le> length key)"

section \<open>The Prisma client operations the handlers call\<close>

definition user_findUnique :: "store \<Rightarrow> string \<Rightarrow> user option" where
  "user_findUnique s uid = users s uid"

definition transaction_findUnique :: "store \<Rightarrow> string \<Rightarrow> transaction option" where
  "transaction_findUnique s key = find (\<lambda>t. idempotencyKey t = key) (transactions s)"

text \<open>
  The primary key of a new row is generated by the client and differs from every key in the
  table; it is modelled as the least number above all of them.
\<close>

fun fresh_id :: "transaction list \<Rightarrow> nat" where
  "fresh_id [] = 0"
| "fresh_id (t # ts) = max (Suc (tid t)) (fresh_id ts)"

text \<open>
  \<^verbatim>\<open>tx.transaction.create\<close>: the unique index on \<^verbatim>\<open>idempotencyKey\<close> rejects a
  second row with the same key.
\<close>

definition transaction_create ::
  "store \<Rightarrow> TransactionType \<Rightarrow> TransactionStatus \<Rightarrow> int \<Rightarrow> string \<Rightarrow> string option
     \<Rightarrow> string option \<Rightarrow> string \<Rightarrow> error + store \<times> transaction" where
  "transaction_create s ty st amt key sId rId descr =
     (if list_ex (\<lambda>t. idempotencyKey t = key) (transactions s) then Inl (PrismaError P2002)
      else
        let t = \<lparr>tid = fresh_id (transactions s), ttype = ty, status = st, amount = amt,
                 idempotencyKey = key, senderId = sId, receiverId = rId,
                 description = Some descr, failureReason = None\<rparr>
        in Inr (s\<lparr>transactions := transactions s @ [t]\<rparr>, t))"

text \<open>\<^verbatim>\<open>tx.transaction.update({where: {id}, data})\<close>; \<open>f\<close> writes the fields of \<open>data\<close>.\<close>

definition transaction_update ::
  "store \<Rightarrow> nat \<Rightarrow> (transaction \<Rightarrow> transaction) \<Rightarrow> error + store \<times> transaction" where
  "transaction_update s i f =
     (case find (\<lambda>t. tid t = i) (transactions s) of
        None \<Rightarrow> Inl (PrismaError P2025)
      | Some t \<Rightarrow>
          Inr (s\<lparr>transactions := map (\<lambda>x. if tid x = i then f x else x) (transactions s)\<rparr>, f t))"

text \<open>
  \<^verbatim>\<open>tx.user.update({where: {id}, data: {balance: {increment: d}}})\<close>; a decrement by
  \<open>d\<close> is an increment by \<open>- d\<close>.
\<close>

definition user_update_balance :: "store \<Rightarrow> string \<Rightarrow> int \<Rightarrow> error + store" where
  "user_update_balance s uid d =
     (case users s uid of
        None \<Rightarrow> Inl (PrismaError P2025)
      | Some u \<Rightarrow> Inr (s\<lparr>users := (users s)(uid \<mapsto> u\<lparr>balance := balance u + d\<rparr>)\<rparr>))"

text \<open>
  \<^verbatim>\<open>prisma.$transaction(callback)\<close>: the writes of the callback are committed together
  when it returns and discarded when it throws.
\<close>

definition prisma_transaction ::
  "store \<Rightarrow> (store \<Rightarrow> error + store \<times> 'a) \<Rightarrow> store \<times> (error + 'a)" where
  "prisma_transaction s cb =
     (case cb s of Inl e \<Rightarrow> (s, Inl e) | Inr (s', r) \<Rightarrow> (s', Inr r))"

text \<open>
  With \<^verbatim>\<open>isolationLevel: Serializable\<close> the database may refuse to commit what the
  callback wrote because of a concurrent transaction; \<open>conflict\<close> is its verdict for this
  attempt. The call then throws and nothing is written.
\<close>

definition prisma_transaction_serializable ::
  "bool \<Rightarrow> store \<Rightarrow> (store \<Rightarrow> error + store \<times> 'a) \<Rightarrow> store \<times> (error + 'a)" where
  "prisma_transaction_serializable conflict s cb =
     (case cb s of
        Inl e \<Rightarrow> (s, Inl e)
      | Inr (s', r) \<Rightarrow> if conflict then (s, Inl (PrismaError P2034)) else (s', Inr r))"

text \<open>\<^verbatim>\<open>description || "..."\<close>: a missing or empty description takes the default.\<close>

definition orDefault :: "string option \<Rightarrow> string \<Rightarrow> string" where
  "orDefault d dflt = (case d of None \<Rightarrow> dflt | Some x \<Rightarrow> if x = [] then dflt else x)"

section \<open>deposit (transaction.controller.ts, lines 33-99)\<close>

text \<open>Lines 84-98: the catch block.\<close>

definition deposit_catch :: "error \<Rightarrow> response" where
  "deposit_catch e =
     (case e of
        ZodError \<Rightarrow> Response 400 (ErrorJson ''Invalid input'')
      | USER_NOT_FOUND \<Rightarrow> Response 404 (ErrorJson ''User not found'')
      | _ \<Rightarrow> Response 500 (ErrorJson ''Internal server error''))"

text \<open>Lines 35-45: parse the body, then look the idempotency key up.\<close>

definition deposit_check :: "store \<Rightarrow> string \<Rightarrow> int \<Rightarrow> string \<Rightarrow> response option" where
  "deposit_check s userId amt key =
     (if \<not> depositSchema userId amt key then Some (deposit_catch ZodError)
      else case transaction_findUnique s key of
             Some existingTransaction \<Rightarrow> Some (Response 200 (TransactionJson existingTransaction))
           | None \<Rightarrow> None)"

text \<open>Lines 48-81: the callback of the database transaction.\<close>

definition deposit_tx ::
  "string \<Rightarrow> int \<Rightarrow> string \<Rightarrow> string option \<Rightarrow> store \<Rightarrow> error + store \<times> transaction" where
  "deposit_tx userId amt key descr s =
     (case user_findUnique s userId of
        None \<Rightarrow> Inl USER_NOT_FOUND
      | Some u \<Rightarrow>
          (case transaction_create s DEPOSIT COMPLETED amt key None (Some userId)
                  (orDefault descr ''Deposit'') of
             Inl e \<Rightarrow> Inl e
           | Inr (s1, t) \<Rightarrow>
               (case user_update_balance s1 userId amt of
                  Inl e \<Rightarrow> Inl e
                | Inr s2 \<Rightarrow> Inr (s2, t))))"

text \<open>Lines 48-98: the database transaction and the response to its outcome.\<close>

definition deposit_unit ::
  "store \<Rightarrow> string \<Rightarrow> int \<Rightarrow> string \<Rightarrow> string option \<Rightarrow> store \<times> response" where
  "deposit_unit s userId amt key descr =
     (case prisma_transaction s (deposit_tx userId amt key descr) of
        (s', Inr t) \<Rightarrow> (s', Response 201 (TransactionJson t))
      | (s', Inl e) \<Rightarrow> (s', deposit_catch e))"

definition deposit ::
  "store \<Rightarrow> string \<Rightarrow> int \<Rightarrow> string \<Rightarrow> string option \<Rightarrow> store \<times> response" where
  "deposit s userId amt key descr =
     (case deposit_check s userId amt key of
        Some r \<Rightarrow> (s, r)
      | None \<Rightarrow> deposit_unit s userId amt key descr)"

section \<open>transfer (transaction.controller.ts, lines 105-219)\<close>

text \<open>Lines 196-218: the catch block.\<close>

definition transfer_catch :: "error \<Rightarrow> response" where
  "transfer_catch e =
     (case e of
        ZodError \<Rightarrow> Response 400 (ErrorJson ''Invalid input'')
      | USER_NOT_FOUND \<Rightarrow> Response 404 (ErrorJson ''User not found'')
      | INSUFFICIENT_FUNDS \<Rightarrow> Response 400 (ErrorJson ''Insufficient funds'')
      | _ \<Rightarrow> Response 500 (ErrorJson ''Internal server error''))"

text \<open>
  Lines 107-125: parse the body, reject a transfer to the same account, then look the
  idempotency key up.
\<close>

definition transfer_check ::
  "store \<Rightarrow> string \<Rightarrow> string \<Rightarrow> int \<Rightarrow> string \<Rightarrow> response option" where
  "transfer_check s sId rId amt key =
     (if \<not> transferSchema sId rId amt key then Some (transfer_catch ZodError)
      else if sId = rId then Some (Response 400 (ErrorJson ''Invalid transfer''))
      else case transaction_findUnique s key of
             Some existingTransaction \<Rightarrow> Some (Response 200 (TransactionJson existingTransaction))
           | None \<Rightarrow> None)"

text \<open>
  Lines 129-189: the callback. \<^verbatim>\<open>[senderId, receiverId].sort()\<close> exchanges the two ids
  when the second is smaller in the order of strings.
\<close>

definition transfer_tx ::
  "string \<Rightarrow> string \<Rightarrow> int \<Rightarrow> string \<Rightarrow> string option \<Rightarrow> store
     \<Rightarrow> error + store \<times> transaction" where
  "transfer_tx sId rId amt key descr s =
     (let (firstId, secondId) = (if rId < sId then (rId, sId) else (sId, rId)) in
      case (user_findUnique s firstId, user_findUnique s secondId) of
        (Some firstUser, Some secondUser) \<Rightarrow>
          (let sender = (if firstId = sId then firstUser else secondUser);
               receiver = (if firstId = rId then firstUser else secondUser) in
           if balance sender < amt then Inl INSUFFICIENT_FUNDS
           else
             (case transaction_create s TRANSFER COMPLETED amt key (Some sId) (Some rId)
                     (orDefault descr ''Internal Transfer'') of
                Inl e \<Rightarrow> Inl e
              | Inr (s1, t) \<Rightarrow>
                  (case user_update_balance s1 sId (- amt) of
                     Inl e \<Rightarrow> Inl e
                   | Inr s2 \<Rightarrow>
                       (case user_update_balance s2 rId amt of
                          Inl e \<Rightarrow> Inl e
                        | Inr s3 \<Rightarrow> Inr (s3, t)))))
      | _ \<Rightarrow> Inl USER_NOT_FOUND)"

text \<open>
  Lines 128-218. \<open>conflicts\<close> lists the verdicts the database would give to successive
  attempts at the serializable transaction (\<open>True\<close>: serialization conflict; none left: no
  conflict). The handler calls \<^verbatim>\<open>prisma.$transaction\<close> once and its catch block answers
  whatever that call throws, so only the first verdict is ever read.
\<close>

definition transfer_unit ::
  "store \<Rightarrow> string \<Rightarrow> string \<Rightarrow> int \<Rightarrow> string \<Rightarrow> string option \<Rightarrow> bool list
     \<Rightarrow> store \<times> response" where
  "transfer_unit s sId rId amt key descr conflicts =
     (case prisma_transaction_serializable (case conflicts of [] \<Rightarrow> False | c # _ \<Rightarrow> c) s
             (transfer_tx sId rId amt key descr) of
        (s', Inr t) \<Rightarrow> (s', Response 201 (TransactionJson t))
      | (s', Inl e) \<Rightarrow> (s', transfer_catch e))"

definition transfer ::
  "store \<Rightarrow> string \<Rightarrow> string \<Rightarrow> int \<Rightarrow> string \<Rightarrow> string option \<Rightarrow> bool list
     \<Rightarrow> store \<times> response" where
  "transfer s sId rId amt key descr conflicts =
     (case transfer_check s sId rId amt key of
        Some r \<Rightarrow> (s, r)
      | None \<Rightarrow> transfer_unit s sId rId amt key descr conflicts)"

section \<open>transfer, for every amount the schema accepts\<close>









section \<open>withdraw (transaction.controller.ts, lines 225-328)\<close>

text \<open>Lines 305-327: the catch block.\<close>

definition withdraw_catch :: "error \<Rightarrow> response" where
  "withdraw_catch e =
     (case e of
        ZodError \<Rightarrow> Response 400 (ErrorJson ''Invalid input'')
      | USER_NOT_FOUND \<Rightarrow> Response 404 (ErrorJson ''User not found'')
      | INSUFFICIENT_FUNDS \<Rightarrow> Response 400 (ErrorJson ''Insufficient funds'')
      | _ \<Rightarrow> Response 500 (ErrorJson ''Internal server error''))"

text \<open>Lines 227-237: parse the body, then look the idempotency key up.\<close>

definition withdraw_check :: "store \<Rightarrow> string \<Rightarrow> int \<Rightarrow> string \<Rightarrow> response option" where
  "withdraw_check s userId amt key =
     (if \<not> withdrawSchema userId amt key then Some (withdraw_catch ZodError)
      else case transaction_findUnique s key of
             Some existingTransaction \<Rightarrow> Some (Response 200 (TransactionJson existingTransaction))
           | None \<Rightarrow> None)"

text \<open>
  Lines 240-301: the callback. \<open>isSuccess\<close> is the outcome of the simulated external
  system, \<^verbatim>\<open>Math.random() > 0.1\<close>, drawn inside the callback after the PROCESSING row
  is created.
\<close>

definition withdraw_tx ::
  "string \<Rightarrow> int \<Rightarrow> string \<Rightarrow> string option \<Rightarrow> bool \<Rightarrow> store
     \<Rightarrow> error + store \<times> transaction" where
  "withdraw_tx userId amt key descr isSuccess s =
     (case user_findUnique s userId of
        None \<Rightarrow> Inl USER_NOT_FOUND
      | Some u \<Rightarrow>
          if balance u < amt then Inl INSUFFICIENT_FUNDS
          else
            (case transaction_create s WITHDRAWAL PROCESSING amt key (Some userId) None
                    (orDefault descr ''Withdrawal'') of
               Inl e \<Rightarrow> Inl e
             | Inr (s1, t) \<Rightarrow>
                 if isSuccess then
                   (case transaction_update s1 (tid t) (\<lambda>x. x\<lparr>status := COMPLETED\<rparr>) of
                      Inl e \<Rightarrow> Inl e
                    | Inr (s2, completedTransaction) \<Rightarrow>
                        (case user_update_balance s2 userId (- amt) of
                           Inl e \<Rightarrow> Inl e
                         | Inr s3 \<Rightarrow> Inr (s3, completedTransaction)))
                 else
                   (case transaction_update s1 (tid t)
                           (\<lambda>x. x\<lparr>status := FAILED,
                                  failureReason :=
                                    Some ''External system rejected the withdrawal''\<rparr>) of
                      Inl e \<Rightarrow> Inl e
                    | Inr (s2, failedTransaction) \<Rightarrow> Inr (s2, failedTransaction))))"

text \<open>Lines 240-327: the database transaction and the response to its outcome.\<close>

definition withdraw_unit ::
  "store \<Rightarrow> string \<Rightarrow> int \<Rightarrow> string \<Rightarrow> string option \<Rightarrow> bool \<Rightarrow> store \<times> response" where
  "withdraw_unit s userId amt key descr isSuccess =
     (case prisma_transaction s (withdraw_tx userId amt key descr isSuccess) of
        (s', Inr result) \<Rightarrow>
          (s', Response (if status result = COMPLETED then 201 else 400) (TransactionJson result))
      | (s', Inl e) \<Rightarrow> (s', withdraw_catch e))"

definition withdraw ::
  "store \<Rightarrow> string \<Rightarrow> int \<Rightarrow> string \<Rightarrow> string option \<Rightarrow> bool \<Rightarrow> store \<times> response" where
  "withdraw s userId amt key descr isSuccess =
     (case withdraw_check s userId amt key of
        Some r \<Rightarrow> (s, r)
      | None \<Rightarrow> withdraw_unit s userId amt key descr isSuccess)"

text \<open>
  The states of the database that the handler commits, in order. The handler's only writes
  are those of the single \<^verbatim>\<open>prisma.$transaction\<close> call on line 240, so there is one
  commit when the callback returns and none when it throws or is not reached.
\<close>

definition withdraw_commits ::
  "store \<Rightarrow> string \<Rightarrow> int \<Rightarrow> string \<Rightarrow> string option \<Rightarrow> bool \<Rightarrow> store list" where
  "withdraw_commits s userId amt key descr isSuccess =
     (case withdraw_check s userId amt key of
        Some r \<Rightarrow> []
      | None \<Rightarrow>
          (case withdraw_tx userId amt key descr isSuccess s of
             Inl e \<Rightarrow> []
           | Inr (s', result) \<Rightarrow> [s']))"

section \<open>Two withdrawals in flight\<close>

text \<open>
  The callback of lines 240-301 in its two parts: the reads with their checks (lines 242-252)
  and the writes (lines 255-300).
\<close>

definition withdraw_guard :: "string \<Rightarrow> int \<Rightarrow> store \<Rightarrow> error + user" where
  "withdraw_guard userId amt s =
     (case user_findUnique s userId of
        None \<Rightarrow> Inl USER_NOT_FOUND
      | Some u \<Rightarrow> if balance u < amt then Inl INSUFFICIENT_FUNDS else Inr u)"

definition withdraw_writes ::
  "string \<Rightarrow> int \<Rightarrow> string \<Rightarrow> string option \<Rightarrow> bool \<Rightarrow> store
     \<Rightarrow> error + store \<times> transaction" where
  "withdraw_writes userId amt key descr isSuccess s =
     (case transaction_create s WITHDRAWAL PROCESSING amt key (Some userId) None
             (orDefault descr ''Withdrawal'') of
        Inl e \<Rightarrow> Inl e
      | Inr (s1, t) \<Rightarrow>
          if isSuccess then
            (case transaction_update s1 (tid t) (\<lambda>x. x\<lparr>status := COMPLETED\<rparr>) of
               Inl e \<Rightarrow> Inl e
             | Inr (s2, completedTransaction) \<Rightarrow>
                 (case user_update_balance s2 userId (- amt) of
                    Inl e \<Rightarrow> Inl e
                  | Inr s3 \<Rightarrow> Inr (s3, completedTransaction)))
          else
            (case transaction_update s1 (tid t)
                    (\<lambda>x. x\<lparr>status := FAILED,
                           failureReason :=
                             Some ''External system rejected the withdrawal''\<rparr>) of
               Inl e \<Rightarrow> Inl e
             | Inr (s2, failedTransaction) \<Rightarrow> Inr (s2, failedTransaction)))"

text \<open>
  The call on line 240 passes no isolation level and the callback takes no lock, so the
  transaction runs at the default level of the database, READ COMMITTED: what the callback
  read may be out of date by the time it writes, and the relative decrement of line 283
  applies to the row as last committed. \<open>s_read\<close> is the state seen by the key lookup and
  by the balance read, \<open>s\<close> the committed state when the writes arrive. With
  \<open>s_read = s\<close> this is \<open>withdraw\<close>.
\<close>

definition withdraw_overlapped ::
  "store \<Rightarrow> store \<Rightarrow> string \<Rightarrow> int \<Rightarrow> string \<Rightarrow> string option \<Rightarrow> bool \<Rightarrow> store \<times> response" where
  "withdraw_overlapped s_read s userId amt key descr isSuccess =
     (case withdraw_check s_read userId amt key of
        Some r \<Rightarrow> (s, r)
      | None \<Rightarrow>
          (case withdraw_guard userId amt s_read of
             Inl e \<Rightarrow> (s, withdraw_catch e)
           | Inr u \<Rightarrow>
               (case prisma_transaction s (withdraw_writes userId amt key descr isSuccess) of
                  (s', Inr result) \<Rightarrow>
                    (s', Response (if status result = COMPLETED then 201 else 400)
                           (TransactionJson result))
                | (s', Inl e) \<Rightarrow> (s', withdraw_catch e))))"

section \<open>Sequences of requests\<close>

text \<open>
  A request together with what the environment decides while it is served: the conflict
  verdicts for a transfer, the outcome of the external system for a withdrawal.
\<close>

datatype request =
    Deposit string int string "string option"
  | Transfer string string int string "string option" "bool list"
  | Withdraw string int string "string option" bool

fun handle :: "store \<Rightarrow> request \<Rightarrow> store \<times> response" where
  "handle s (Deposit userId amt key descr) = deposit s userId amt key descr"
| "handle s (Transfer sId rId amt key descr conflicts) = transfer s sId rId amt key descr conflicts"
| "handle s (Withdraw userId amt key descr isSuccess) = withdraw s userId amt key descr isSuccess"

fun run :: "store \<Rightarrow> request list \<Rightarrow> store" where
  "run s [] = s"
| "run s (r # rs) = run (fst (handle s r)) rs"

text \<open>\<^verbatim>\<open>getUserBalance\<close> (user.controller.ts, lines 61-86), as the balance it reads.\<close>

definition getUserBalance :: "store \<Rightarrow> string \<Rightarrow> int option" where
  "getUserBalance s user_id = map_option balance (user_findUnique s user_id)"

text \<open>The invariant of the accounts: no stored balance is below zero.\<close>

definition no_negative_balance :: "store \<Rightarrow> bool" where
  "no_negative_balance s = (\<forall>uid u. users s uid = Some u \<longrightarrow> 0 \<le> balance u)"

section \<open>Example data\<close>

definition U1 :: string where
  "U1 = ''11111111-1111-4111-8111-111111111111''"

definition U2 :: string where
  "U2 = ''22222222-2222-4222-8222-222222222222''"

text \<open>Two accounts, 700.00 and 300.00, and the log of the deposit and transfer that led there.\<close>

definition store0 :: store where
  "store0 =
     \<lparr>users = [U1 \<mapsto> \<lparr>email = ''u1@example.com'', name = ''U1'', balance = 70000\<rparr>,
               U2 \<mapsto> \<lparr>email = ''u2@example.com'', name = ''U2'', balance = 30000\<rparr>],
      transactions =
        [\<lparr>tid = 0, ttype = DEPOSIT, status = COMPLETED, amount = 100000,
          idempotencyKey = ''k1'', senderId = None, receiverId = Some U1,
          description = Some ''Deposit'', failureReason = None\<rparr>,
         \<lparr>tid = 1, ttype = TRANSFER, status = COMPLETED, amount = 30000,
          idempotencyKey = ''k2'', senderId = Some U1, receiverId = Some U2,
          description = Some ''Internal Transfer'', failureReason = None\<rparr>]\<rparr>"

section \<open>The handlers in closed form\<close>

text \<open>
  Rows already in the log have ids below the fresh one, so the status update of a withdrawal
  touches the new row only.
\<close>

lemma fresh_id_above: "t \<in> set ts \<Longrightarrow> tid t < fresh_id ts"
  by (induction ts) auto

lemma find_append_None: "find P xs = None \<Longrightarrow> find P (xs @ ys) = find P ys"
  by (induction xs) (auto split: if_splits)

lemma map_fresh_id_old:
  "map (\<lambda>x. if tid x = fresh_id ts then f x else x) ts = ts"
  using fresh_id_above by (intro map_idI) fastforce

lemma find_fresh_id:
  "tid t = fresh_id ts \<Longrightarrow> find (\<lambda>x. tid x = fresh_id ts) (ts @ [t]) = Some t"
proof -
  assume a: "tid t = fresh_id ts"
  have "find (\<lambda>x. tid x = fresh_id ts) ts = None"
    using fresh_id_above by (fastforce simp: find_None_iff)
  then show ?thesis using a by (simp add: find_append_None)
qed

lemma find_key_None: "(find (\<lambda>t. idempotencyKey t = key) ts = None) = (\<not> list_ex (\<lambda>t. idempotencyKey t = key) ts)"
  by (auto simp: find_None_iff list_ex_iff)

lemma list_ex_key_find:
  "list_ex (\<lambda>t. idempotencyKey t = key) ts = (find (\<lambda>t. idempotencyKey t = key) ts \<noteq> None)"
  by (simp add: find_key_None)

lemma deposit_tx_eq:
  "deposit_tx userId amt key descr s =
     (case users s userId of
        None \<Rightarrow> Inl USER_NOT_FOUND
      | Some u \<Rightarrow>
          if list_ex (\<lambda>t. idempotencyKey t = key) (transactions s) then Inl (PrismaError P2002)
          else
            let t = \<lparr>tid = fresh_id (transactions s), ttype = DEPOSIT, status = COMPLETED,
                     amount = amt, idempotencyKey = key, senderId = None,
                     receiverId = Some userId,
                     description = Some (orDefault descr ''Deposit''), failureReason = None\<rparr>
            in Inr (\<lparr>users = (users s)(userId \<mapsto> u\<lparr>balance := balance u + amt\<rparr>),
                     transactions = transactions s @ [t]\<rparr>, t))"
  by (simp add: deposit_tx_def user_findUnique_def transaction_create_def
      user_update_balance_def Let_def split: option.splits)

lemma transfer_tx_eq:
  assumes "sId \<noteq> rId"
  shows "transfer_tx sId rId amt key descr s =
     (case users s sId of
        None \<Rightarrow> Inl USER_NOT_FOUND
      | Some su \<Rightarrow>
         (case users s rId of
            None \<Rightarrow> Inl USER_NOT_FOUND
          | Some ru \<Rightarrow>
          if balance su < amt then Inl INSUFFICIENT_FUNDS
          else if list_ex (\<lambda>t. idempotencyKey t = key) (transactions s)
          then Inl (PrismaError P2002)
          else
            let t = \<lparr>tid = fresh_id (transactions s), ttype = TRANSFER, status = COMPLETED,
                     amount = amt, idempotencyKey = key, senderId = Some sId,
                     receiverId = Some rId,
                     description = Some (orDefault descr ''Internal Transfer''),
                     failureReason = None\<rparr>
            in Inr (\<lparr>users = (users s)(sId \<mapsto> su\<lparr>balance := balance su - amt\<rparr>,
                                        rId \<mapsto> ru\<lparr>balance := balance ru + amt\<rparr>),
                     transactions = transactions s @ [t]\<rparr>, t)))"
  using assms
  by (simp add: transfer_tx_def user_findUnique_def transaction_create_def
      user_update_balance_def Let_def split: option.splits)

lemma withdraw_tx_eq:
  "withdraw_tx userId amt key descr isSuccess s =
     (case users s userId of
        None \<Rightarrow> Inl USER_NOT_FOUND
      | Some u \<Rightarrow>
          if balance u < amt then Inl INSUFFICIENT_FUNDS
          else if list_ex (\<lambda>t. idempotencyKey t = key) (transactions s)
          then Inl (PrismaError P2002)
          else
            let t = \<lparr>tid = fresh_id (transactions s), ttype = WITHDRAWAL,
                     status = (if isSuccess then COMPLETED else FAILED),
                     amount = amt, idempotencyKey = key, senderId = Some userId,
                     receiverId = None,
                     description = Some (orDefault descr ''Withdrawal''),
                     failureReason =
                       (if isSuccess then None
                        else Some ''External system rejected the withdrawal'')\<rparr>
            in Inr (\<lparr>users = (if isSuccess
                               then (users s)(userId \<mapsto> u\<lparr>balance := balance u - amt\<rparr>)
                               else users s),
                     transactions = transactions s @ [t]\<rparr>, t))"
  by (simp add: withdraw_tx_def user_findUnique_def transaction_create_def
      transaction_update_def user_update_balance_def Let_def find_fresh_id map_fresh_id_old
      split: option.splits)


lemma deposit_eq:
  "deposit s userId amt key descr =
     (if \<not> depositSchema userId amt key then (s, Response 400 (ErrorJson ''Invalid input''))
      else case find (\<lambda>t. idempotencyKey t = key) (transactions s) of
        Some t \<Rightarrow> (s, Response 200 (TransactionJson t))
      | None \<Rightarrow>
         (case users s userId of
            None \<Rightarrow> (s, Response 404 (ErrorJson ''User not found''))
          | Some u \<Rightarrow>
            let t = \<lparr>tid = fresh_id (transactions s), ttype = DEPOSIT, status = COMPLETED,
                     amount = amt, idempotencyKey = key, senderId = None,
                     receiverId = Some userId,
                     description = Some (orDefault descr ''Deposit''), failureReason = None\<rparr>
            in (\<lparr>users = (users s)(userId \<mapsto> u\<lparr>balance := balance u + amt\<rparr>),
                 transactions = transactions s @ [t]\<rparr>, Response 201 (TransactionJson t))))"
  by (simp add: deposit_def deposit_check_def deposit_unit_def prisma_transaction_def
      deposit_tx_eq deposit_catch_def transaction_findUnique_def list_ex_key_find Let_def
      split: option.splits)

lemma transfer_eq:
  "transfer s sId rId amt key descr conflicts =
     (if \<not> transferSchema sId rId amt key then (s, Response 400 (ErrorJson ''Invalid input''))
      else if sId = rId then (s, Response 400 (ErrorJson ''Invalid transfer''))
      else case find (\<lambda>t. idempotencyKey t = key) (transactions s) of
        Some t \<Rightarrow> (s, Response 200 (TransactionJson t))
      | None \<Rightarrow>
         (case users s sId of
            None \<Rightarrow> (s, Response 404 (ErrorJson ''User not found''))
          | Some su \<Rightarrow>
            (case users s rId of
               None \<Rightarrow> (s, Response 404 (ErrorJson ''User not found''))
             | Some ru \<Rightarrow>
                if balance su < amt then (s, Response 400 (ErrorJson ''Insufficient funds''))
                else if (case conflicts of [] \<Rightarrow> False | c # _ \<Rightarrow> c)
                then (s, Response 500 (ErrorJson ''Internal server error''))
                else
                  let t = \<lparr>tid = fresh_id (transactions s), ttype = TRANSFER,
                           status = COMPLETED, amount = amt, idempotencyKey = key,
                           senderId = Some sId, receiverId = Some rId,
                           description = Some (orDefault descr ''Internal Transfer''),
                           failureReason = None\<rparr>
                  in (\<lparr>users = (users s)(sId \<mapsto> su\<lparr>balance := balance su - amt\<rparr>,
                                          rId \<mapsto> ru\<lparr>balance := balance ru + amt\<rparr>),
                       transactions = transactions s @ [t]\<rparr>,
                      Response 201 (TransactionJson t)))))"
  by (simp add: transfer_def transfer_check_def transfer_unit_def
      prisma_transaction_serializable_def transfer_tx_eq transfer_catch_def
      transaction_findUnique_def list_ex_key_find Let_def split: option.splits)

lemma withdraw_eq:
  "withdraw s userId amt key descr isSuccess =
     (if \<not> withdrawSchema userId amt key then (s, Response 400 (ErrorJson ''Invalid input''))
      else case find (\<lambda>t. idempotencyKey t = key) (transactions s) of
        Some t \<Rightarrow> (s, Response 200 (TransactionJson t))
      | None \<Rightarrow>
         (case users s userId of
            None \<Rightarrow> (s, Response 404 (ErrorJson ''User not found''))
          | Some u \<Rightarrow>
            if balance u < amt then (s, Response 400 (ErrorJson ''Insufficient funds''))
            else
            let t = \<lparr>tid = fresh_id (transactions s), ttype = WITHDRAWAL,
                     status = (if isSuccess then COMPLETED else FAILED),
                     amount = amt, idempotencyKey = key, senderId = Some userId,
                     receiverId = None,
                     description = Some (orDefault descr ''Withdrawal''),
                     failureReason =
                       (if isSuccess then None
                        else Some ''External system rejected the withdrawal'')\<rparr>
            in (\<lparr>users = (if isSuccess
                               then (users s)(userId \<mapsto> u\<lparr>balance := balance u - amt\<rparr>)
                               else users s),
                     transactions = transactions s @ [t]\<rparr>,
                Response (if isSuccess then 201 else 400) (TransactionJson t))))"
  by (simp add: withdraw_def withdraw_check_def withdraw_unit_def prisma_transaction_def
      withdraw_tx_eq withdraw_catch_def transaction_findUnique_def list_ex_key_find Let_def
      split: option.splits)

text \<open>
  The two parts of the withdrawal callback make up the callback, and a withdrawal whose reads
  are up to date is the handler. On whole hundredths the transfer for every amount is the
  transfer modelled first.
\<close>

lemma withdraw_tx_split:
  "withdraw_tx userId amt key descr isSuccess s =
     (case withdraw_guard userId amt s of
        Inl e \<Rightarrow> Inl e
      | Inr u \<Rightarrow> withdraw_writes userId amt key descr isSuccess s)"
  by (simp add: withdraw_tx_def withdraw_guard_def withdraw_writes_def split: option.splits)

lemma withdraw_overlapped_same:
  "withdraw_overlapped s s userId amt key descr isSuccess
     = withdraw s userId amt key descr isSuccess"
  by (simp add: withdraw_overlapped_def withdraw_def withdraw_unit_def prisma_transaction_def
      withdraw_tx_split split: option.splits sum.splits)







section \<open>Example data evaluated\<close>

lemma uuid_U1: "uuid U1"
  by (simp add: uuid_def U1_def hexDigit_def)

lemma uuid_U2: "uuid U2"
  by (simp add: uuid_def U2_def hexDigit_def)

lemma U1_neq_U2: "U1 \<noteq> U2"
  by (simp add: U1_def U2_def)

lemma users_store0:
  "users store0 U1 = Some \<lparr>email = ''u1@example.com'', name = ''U1'', balance = 70000\<rparr>"
  "users store0 U2 = Some \<lparr>email = ''u2@example.com'', name = ''U2'', balance = 30000\<rparr>"
  using U1_neq_U2 by (simp_all add: store0_def)

lemma find_store0:
  "find (\<lambda>t. idempotencyKey t = ''k3'') (transactions store0) = None"
  "find (\<lambda>t. idempotencyKey t = ''k2'') (transactions store0) =
     Some \<lparr>tid = 1, ttype = TRANSFER, status = COMPLETED, amount = 30000,
          idempotencyKey = ''k2'', senderId = Some U1, receiverId = Some U2,
          description = Some ''Internal Transfer'', failureReason = None\<rparr>"
  by (simp_all add: store0_def)

lemma fresh_id_store0: "fresh_id (transactions store0) = 2"
  by (simp add: store0_def)

lemma schemas_hold:
  "depositSchema U1 5000 ''k3''" "transferSchema U1 U2 5000 ''k3''" "withdrawSchema U1 5000 ''k3''"
  "transferSchema U1 U2 1000000 ''k3''" "transferSchema U1 U1 5000 ''k2''"
  by (simp_all add: depositSchema_def transferSchema_def withdrawSchema_def uuid_U1 uuid_U2)

lemma deposit_k3:
  "deposit store0 U1 5000 ''k3'' None =
     (\<lparr>users = (users store0)
         (U1 \<mapsto> \<lparr>email = ''u1@example.com'', name = ''U1'', balance = 75000\<rparr>),
       transactions = transactions store0 @
         [\<lparr>tid = 2, ttype = DEPOSIT, status = COMPLETED, amount = 5000,
           idempotencyKey = ''k3'', senderId = None, receiverId = Some U1,
           description = Some ''Deposit'', failureReason = None\<rparr>]\<rparr>,
      Response 201 (TransactionJson
         \<lparr>tid = 2, ttype = DEPOSIT, status = COMPLETED, amount = 5000,
          idempotencyKey = ''k3'', senderId = None, receiverId = Some U1,
          description = Some ''Deposit'', failureReason = None\<rparr>))"
  by (simp add: deposit_eq schemas_hold find_store0 users_store0 fresh_id_store0
      orDefault_def Let_def)

lemma withdraw_k3_ok:
  "withdraw_tx U1 5000 ''k3'' None True store0 =
     Inr (\<lparr>users = (users store0)
            (U1 \<mapsto> \<lparr>email = ''u1@example.com'', name = ''U1'', balance = 65000\<rparr>),
          transactions = transactions store0 @
            [\<lparr>tid = 2, ttype = WITHDRAWAL, status = COMPLETED, amount = 5000,
              idempotencyKey = ''k3'', senderId = Some U1, receiverId = None,
              description = Some ''Withdrawal'', failureReason = None\<rparr>]\<rparr>,
         \<lparr>tid = 2, ttype = WITHDRAWAL, status = COMPLETED, amount = 5000,
           idempotencyKey = ''k3'', senderId = Some U1, receiverId = None,
           description = Some ''Withdrawal'', failureReason = None\<rparr>)"
  by (simp add: withdraw_tx_eq users_store0 list_ex_key_find find_store0 fresh_id_store0
      orDefault_def Let_def)

lemma withdraw_check_k3: "withdraw_check store0 U1 5000 ''k3'' = None"
  by (simp add: withdraw_check_def schemas_hold transaction_findUnique_def find_store0)


lemma U2_neq_U1: "U2 \<noteq> U1"
  using U1_neq_U2 by simp

lemma withdraw_a:
  "withdraw store0 U1 60000 ''a'' None True =
     (\<lparr>users = (users store0)
         (U1 \<mapsto> \<lparr>email = ''u1@example.com'', name = ''U1'', balance = 10000\<rparr>),
       transactions = transactions store0 @
         [\<lparr>tid = 2, ttype = WITHDRAWAL, status = COMPLETED, amount = 60000,
           idempotencyKey = ''a'', senderId = Some U1, receiverId = None,
           description = Some ''Withdrawal'', failureReason = None\<rparr>]\<rparr>,
      Response 201 (TransactionJson
         \<lparr>tid = 2, ttype = WITHDRAWAL, status = COMPLETED, amount = 60000,
           idempotencyKey = ''a'', senderId = Some U1, receiverId = None,
           description = Some ''Withdrawal'', failureReason = None\<rparr>))"
  using U1_neq_U2 U2_neq_U1
  by (simp add: withdraw_eq withdrawSchema_def uuid_U1 orDefault_def Let_def store0_def)

lemma withdraw_b_serial:
  "withdraw (fst (withdraw store0 U1 60000 ''a'' None True)) U1 60000 ''b'' None True =
     (fst (withdraw store0 U1 60000 ''a'' None True),
      Response 400 (ErrorJson ''Insufficient funds''))"
  unfolding withdraw_a fst_conv
  using U1_neq_U2 U2_neq_U1
  by (simp add: withdraw_eq withdrawSchema_def uuid_U1 store0_def)

lemma withdraw_b_overlapped:
  "withdraw_overlapped store0 (fst (withdraw store0 U1 60000 ''a'' None True))
       U1 60000 ''b'' None True =
     (\<lparr>users = (users store0)
         (U1 \<mapsto> \<lparr>email = ''u1@example.com'', name = ''U1'', balance = - 50000\<rparr>),
       transactions = transactions store0 @
         [\<lparr>tid = 2, ttype = WITHDRAWAL, status = COMPLETED, amount = 60000,
           idempotencyKey = ''a'', senderId = Some U1, receiverId = None,
           description = Some ''Withdrawal'', failureReason = None\<rparr>,
          \<lparr>tid = 3, ttype = WITHDRAWAL, status = COMPLETED, amount = 60000,
           idempotencyKey = ''b'', senderId = Some U1, receiverId = None,
           description = Some ''Withdrawal'', failureReason = None\<rparr>]\<rparr>,
      Response 201 (TransactionJson
         \<lparr>tid = 3, ttype = WITHDRAWAL, status = COMPLETED, amount = 60000,
           idempotencyKey = ''b'', senderId = Some U1, receiverId = None,
           description = Some ''Withdrawal'', failureReason = None\<rparr>))"
  unfolding withdraw_a fst_conv
  using U1_neq_U2 U2_neq_U1
  by (simp add: withdraw_overlapped_def withdraw_check_def withdrawSchema_def
      uuid_U1 transaction_findUnique_def withdraw_guard_def user_findUnique_def
      prisma_transaction_def withdraw_writes_def transaction_create_def
      transaction_update_def user_update_balance_def orDefault_def Let_def store0_def)

section \<open>Balances below zero\<close>

text \<open>
  Served one after another, each in full before the next begins, the handlers keep every
  balance at or above zero, and a transfer or withdrawal of more than the account holds
  changes nothing.
\<close>

lemma deposit_keeps_no_negative_balance:
  "no_negative_balance s \<Longrightarrow> no_negative_balance (fst (deposit s userId amt key descr))"
  by (auto simp: deposit_eq no_negative_balance_def depositSchema_def Let_def
      split: option.splits if_splits)

lemma transfer_keeps_no_negative_balance:
  "no_negative_balance s \<Longrightarrow>
   no_negative_balance (fst (transfer s sId rId amt key descr conflicts))"
  by (auto simp: transfer_eq no_negative_balance_def transferSchema_def Let_def
      split: option.splits if_splits)

lemma withdraw_keeps_no_negative_balance:
  "no_negative_balance s \<Longrightarrow>
   no_negative_balance (fst (withdraw s userId amt key descr isSuccess))"
  by (auto simp: withdraw_eq no_negative_balance_def withdrawSchema_def Let_def
      split: option.splits if_splits)

lemma handle_keeps_no_negative_balance:
  "no_negative_balance s \<Longrightarrow> no_negative_balance (fst (handle s r))"
  by (cases r)
    (simp_all add: deposit_keeps_no_negative_balance transfer_keeps_no_negative_balance
      withdraw_keeps_no_negative_balance)

lemma run_keeps_no_negative_balance:
  "no_negative_balance s \<Longrightarrow> no_negative_balance (run s rs)"
  by (induction rs arbitrary: s) (simp_all add: handle_keeps_no_negative_balance)

lemma transfer_short_of_funds_unchanged:
  "users s sId = Some u \<Longrightarrow> balance u < amt \<Longrightarrow>
   fst (transfer s sId rId amt key descr conflicts) = s"
  by (simp add: transfer_eq split: option.splits)

lemma withdraw_short_of_funds_unchanged:
  "users s userId = Some u \<Longrightarrow> balance u < amt \<Longrightarrow>
   fst (withdraw s userId amt key descr isSuccess) = s"
  by (simp add: withdraw_eq split: option.splits)

text \<open>
  C1. Two withdrawals of 600.00 from an account that holds 700.00, both accepted by the
  external system. Served one after the other, the first is answered 201 and the second is
  refused with 400 "Insufficient funds". When the second request looks its key up and reads
  the balance before the first has committed, and writes after, it is answered 201 as well
  and the balance of the account ends at -500.00.
\<close>

theorem concurrent_withdrawals_overdraw:
  "getUserBalance store0 U1 = Some 70000 \<and>
   snd (withdraw store0 U1 60000 ''a'' None True)
     = Response 201 (TransactionJson
         \<lparr>tid = 2, ttype = WITHDRAWAL, status = COMPLETED, amount = 60000,
           idempotencyKey = ''a'', senderId = Some U1, receiverId = None,
           description = Some ''Withdrawal'', failureReason = None\<rparr>) \<and>
   snd (withdraw (fst (withdraw store0 U1 60000 ''a'' None True)) U1 60000 ''b'' None True)
     = Response 400 (ErrorJson ''Insufficient funds'') \<and>
   snd (withdraw_overlapped store0 (fst (withdraw store0 U1 60000 ''a'' None True))
          U1 60000 ''b'' None True)
     = Response 201 (TransactionJson
         \<lparr>tid = 3, ttype = WITHDRAWAL, status = COMPLETED, amount = 60000,
           idempotencyKey = ''b'', senderId = Some U1, receiverId = None,
           description = Some ''Withdrawal'', failureReason = None\<rparr>) \<and>
   getUserBalance
     (fst (withdraw_overlapped store0 (fst (withdraw store0 U1 60000 ''a'' None True))
             U1 60000 ''b'' None True)) U1
     = Some (- 50000)"
  by (simp add: withdraw_b_overlapped withdraw_b_serial, simp add: withdraw_a
      getUserBalance_def user_findUnique_def users_store0)

section \<open>Replaying an idempotency key\<close>

lemma find_key_snoc:
  "find (\<lambda>t. idempotencyKey t = key) ts = None \<Longrightarrow> idempotencyKey t = key \<Longrightarrow>
   find (\<lambda>t. idempotencyKey t = key) (ts @ [t]) = Some t"
  by (simp add: find_append_None)

lemma deposit_replay:
  assumes "deposit s userId amt key descr = (s1, Response c (TransactionJson t))"
  shows "deposit s1 userId amt key descr = (s1, Response 200 (TransactionJson t))"
proof (cases "find (\<lambda>t. idempotencyKey t = key) (transactions s)")
  case None
  with assms show ?thesis
    by (auto simp: deposit_eq Let_def find_key_snoc split: if_splits option.splits)
next
  case (Some t0)
  with assms show ?thesis
    by (auto simp: deposit_eq split: if_splits)
qed

lemma transfer_replay:
  assumes "transfer s sId rId amt key descr conflicts = (s1, Response c (TransactionJson t))"
  shows "transfer s1 sId rId amt key descr conflicts' = (s1, Response 200 (TransactionJson t))"
proof (cases "find (\<lambda>t. idempotencyKey t = key) (transactions s)")
  case None
  with assms show ?thesis
    by (auto simp: transfer_eq Let_def find_key_snoc split: if_splits option.splits)
next
  case (Some t0)
  with assms show ?thesis
    by (auto simp: transfer_eq split: if_splits)
qed

lemma withdraw_replay:
  assumes "withdraw s userId amt key descr isSuccess = (s1, Response c (TransactionJson t))"
  shows "withdraw s1 userId amt key descr isSuccess' = (s1, Response 200 (TransactionJson t))"
proof (cases "find (\<lambda>t. idempotencyKey t = key) (transactions s)")
  case None
  with assms show ?thesis
    by (auto simp: withdraw_eq Let_def find_key_snoc split: if_splits option.splits)
next
  case (Some t0)
  with assms show ?thesis
    by (auto simp: withdraw_eq split: if_splits)
qed

text \<open>
  C2. When a deposit, a transfer or a withdrawal has answered with a transaction row, the same
  call made again on the store it left behind answers 200 with that very row (hence the same
  transaction id) and leaves the store as it is: no balance moves a second time and no row
  is appended. This holds whatever the database verdicts and the external outcome of the second
  call would be.
\<close>

theorem idempotent_replay:
  "(deposit s userId amt key descr = (sd, Response cd (TransactionJson td)) \<longrightarrow>
      deposit sd userId amt key descr = (sd, Response 200 (TransactionJson td))) \<and>
   (transfer s userId rId amt key descr conflicts = (st, Response ct (TransactionJson tt)) \<longrightarrow>
      transfer st userId rId amt key descr conflicts' = (st, Response 200 (TransactionJson tt))) \<and>
   (withdraw s userId amt key descr isSuccess = (sw, Response cw (TransactionJson tw)) \<longrightarrow>
      withdraw sw userId amt key descr isSuccess' = (sw, Response 200 (TransactionJson tw)))"
  by (intro conjI impI; erule deposit_replay transfer_replay withdraw_replay)

theorem idempotent_replay_witness:
  "snd (deposit store0 U1 5000 ''k3'' None)
     = Response 201 (TransactionJson
         \<lparr>tid = 2, ttype = DEPOSIT, status = COMPLETED, amount = 5000,
          idempotencyKey = ''k3'', senderId = None, receiverId = Some U1,
          description = Some ''Deposit'', failureReason = None\<rparr>) \<and>
   deposit (fst (deposit store0 U1 5000 ''k3'' None)) U1 5000 ''k3'' None
     = (fst (deposit store0 U1 5000 ''k3'' None),
        Response 200 (TransactionJson
         \<lparr>tid = 2, ttype = DEPOSIT, status = COMPLETED, amount = 5000,
          idempotencyKey = ''k3'', senderId = None, receiverId = Some U1,
          description = Some ''Deposit'', failureReason = None\<rparr>)) \<and>
   snd (transfer store0 U1 U2 5000 ''k3'' None [])
     = Response 201 (TransactionJson
         \<lparr>tid = 2, ttype = TRANSFER, status = COMPLETED, amount = 5000,
          idempotencyKey = ''k3'', senderId = Some U1, receiverId = Some U2,
          description = Some ''Internal Transfer'', failureReason = None\<rparr>) \<and>
   transfer (fst (transfer store0 U1 U2 5000 ''k3'' None [])) U1 U2 5000 ''k3'' None [True]
     = (fst (transfer store0 U1 U2 5000 ''k3'' None []),
        Response 200 (TransactionJson
         \<lparr>tid = 2, ttype = TRANSFER, status = COMPLETED, amount = 5000,
          idempotencyKey = ''k3'', senderId = Some U1, receiverId = Some U2,
          description = Some ''Internal Transfer'', failureReason = None\<rparr>)) \<and>
   snd (withdraw store0 U1 5000 ''k3'' None False)
     = Response 400 (TransactionJson
         \<lparr>tid = 2, ttype = WITHDRAWAL, status = FAILED, amount = 5000,
          idempotencyKey = ''k3'', senderId = Some U1, receiverId = None,
          description = Some ''Withdrawal'',
          failureReason = Some ''External system rejected the withdrawal''\<rparr>) \<and>
   withdraw (fst (withdraw store0 U1 5000 ''k3'' None False)) U1 5000 ''k3'' None True
     = (fst (withdraw store0 U1 5000 ''k3'' None False),
        Response 200 (TransactionJson
         \<lparr>tid = 2, ttype = WITHDRAWAL, status = FAILED, amount = 5000,
          idempotencyKey = ''k3'', senderId = Some U1, receiverId = None,
          description = Some ''Withdrawal'',
          failureReason = Some ''External system rejected the withdrawal''\<rparr>))"
proof -
  let ?td = "\<lparr>tid = 2, ttype = DEPOSIT, status = COMPLETED, amount = 5000,
          idempotencyKey = ''k3'', senderId = None, receiverId = Some U1,
          description = Some ''Deposit'', failureReason = None\<rparr>"
  let ?tt = "\<lparr>tid = 2, ttype = TRANSFER, status = COMPLETED, amount = 5000,
          idempotencyKey = ''k3'', senderId = Some U1, receiverId = Some U2,
          description = Some ''Internal Transfer'', failureReason = None\<rparr>"
  let ?tw = "\<lparr>tid = 2, ttype = WITHDRAWAL, status = FAILED, amount = 5000,
          idempotencyKey = ''k3'', senderId = Some U1, receiverId = None,
          description = Some ''Withdrawal'',
          failureReason = Some ''External system rejected the withdrawal''\<rparr>"
  have d: "snd (deposit store0 U1 5000 ''k3'' None) = Response 201 (TransactionJson ?td)"
    by (simp add: deposit_eq schemas_hold find_store0 users_store0 fresh_id_store0
        orDefault_def Let_def)
  have t: "snd (transfer store0 U1 U2 5000 ''k3'' None []) = Response 201 (TransactionJson ?tt)"
    by (simp add: transfer_eq schemas_hold find_store0 users_store0 fresh_id_store0
        orDefault_def U1_neq_U2 Let_def)
  have w: "snd (withdraw store0 U1 5000 ''k3'' None False) = Response 400 (TransactionJson ?tw)"
    by (simp add: withdraw_eq schemas_hold find_store0 users_store0 fresh_id_store0
        orDefault_def Let_def)
  note inst = idempotent_replay [where s = store0 and userId = U1 and rId = U2 and amt = 5000
      and key = "''k3''" and descr = None and conflicts = "[]" and conflicts' = "[True]"
      and isSuccess = False and isSuccess' = True
      and sd = "fst (deposit store0 U1 5000 ''k3'' None)" and cd = 201 and td = ?td
      and st = "fst (transfer store0 U1 U2 5000 ''k3'' None [])" and ct = 201 and tt = ?tt
      and sw = "fst (withdraw store0 U1 5000 ''k3'' None False)" and cw = 400 and tw = ?tw]
  have "deposit store0 U1 5000 ''k3'' None
          = (fst (deposit store0 U1 5000 ''k3'' None), Response 201 (TransactionJson ?td))"
    using d by (simp add: prod_eq_iff)
  moreover have "transfer store0 U1 U2 5000 ''k3'' None []
          = (fst (transfer store0 U1 U2 5000 ''k3'' None []), Response 201 (TransactionJson ?tt))"
    using t by (simp add: prod_eq_iff)
  moreover have "withdraw store0 U1 5000 ''k3'' None False
          = (fst (withdraw store0 U1 5000 ''k3'' None False), Response 400 (TransactionJson ?tw))"
    using w by (simp add: prod_eq_iff)
  ultimately show ?thesis
    using inst d t w by blast
qed

section \<open>Transfers\<close>




text \<open>
  C7. A transfer whose sender holds strictly less than the amount gives back the store it was
  given, whatever else the request holds: no row, completed or not, is recorded and neither
  balance moves. When the request reaches the balance check (the body passes the schema, the
  accounts are distinct, the key is new, both accounts exist) the answer is
  400 "Insufficient funds".
\<close>

theorem insufficient_funds_transfer_rejected:
  "(users s sId = Some su \<and> balance su < amt \<longrightarrow>
      fst (transfer s sId rId amt key descr conflicts) = s) \<and>
   (transferSchema sId rId amt key \<and> sId \<noteq> rId \<and> transaction_findUnique s key = None \<and>
    users s sId = Some su \<and> users s rId = Some ru \<and> balance su < amt \<longrightarrow>
      transfer s sId rId amt key descr conflicts
        = (s, Response 400 (ErrorJson ''Insufficient funds'')))"
proof -
  have "users s sId = Some su \<and> balance su < amt \<longrightarrow>
      fst (transfer s sId rId amt key descr conflicts) = s"
    by (simp add: transfer_short_of_funds_unchanged)
  moreover have "transferSchema sId rId amt key \<and> sId \<noteq> rId \<and>
      transaction_findUnique s key = None \<and>
      users s sId = Some su \<and> users s rId = Some ru \<and> balance su < amt \<longrightarrow>
      transfer s sId rId amt key descr conflicts
        = (s, Response 400 (ErrorJson ''Insufficient funds''))"
    by (simp add: transfer_eq transaction_findUnique_def)
  ultimately show ?thesis by blast
qed

theorem insufficient_funds_transfer_rejected_witness:
  "transferSchema U1 U2 1000000 ''k3'' \<and> U1 \<noteq> U2 \<and>
   transaction_findUnique store0 ''k3'' = None \<and>
   getUserBalance store0 U1 = Some 70000 \<and> getUserBalance store0 U2 = Some 30000 \<and>
   (70000::int) < 1000000 \<and>
   fst (transfer store0 U1 U2 1000000 ''k3'' None []) = store0 \<and>
   transfer store0 U1 U2 1000000 ''k3'' None []
     = (store0, Response 400 (ErrorJson ''Insufficient funds''))"
proof -
  have b: "transaction_findUnique store0 ''k3'' = None"
    by (simp add: transaction_findUnique_def find_store0)
  have d: "balance \<lparr>email = ''u1@example.com'', name = ''U1'', balance = 70000\<rparr> < 1000000"
    by simp
  note inst = insufficient_funds_transfer_rejected [where s = store0 and sId = U1 and rId = U2
      and su = "\<lparr>email = ''u1@example.com'', name = ''U1'', balance = 70000\<rparr>"
      and ru = "\<lparr>email = ''u2@example.com'', name = ''U2'', balance = 30000\<rparr>"
      and amt = 1000000 and key = "''k3''" and descr = None and conflicts = "[]"]
  from inst b d users_store0 U1_neq_U2 schemas_hold(4) have
    "fst (transfer store0 U1 U2 1000000 ''k3'' None []) = store0 \<and>
     transfer store0 U1 U2 1000000 ''k3'' None []
       = (store0, Response 400 (ErrorJson ''Insufficient funds''))"
    by blast
  with b show ?thesis
    by (simp add: schemas_hold U1_neq_U2 getUserBalance_def user_findUnique_def users_store0)
qed

text \<open>
  C8. A transfer whose sender and receiver are the same account is answered with
  400 "Invalid transfer"; whatever else the request holds, the store that comes back is the
  store that went in: no row is written to the log and no balance changes. The answer is the
  one for an invalid transfer when the body passes the schema, which is checked first.
\<close>

theorem transfer_same_account_rejected:
  "fst (transfer s sId sId amt key descr conflicts) = s \<and>
   (transferSchema sId sId amt key \<longrightarrow>
      transfer s sId sId amt key descr conflicts
        = (s, Response 400 (ErrorJson ''Invalid transfer'')))"
  by (simp add: transfer_def transfer_check_def)

theorem transfer_same_account_rejected_witness:
  "transferSchema U1 U1 500 ''k5'' \<and>
   transfer store0 U1 U1 500 ''k5'' None [] = (store0, Response 400 (ErrorJson ''Invalid transfer''))"
  using transfer_same_account_rejected [of store0 U1 500 "''k5''" None "[]"]
  by (simp add: transferSchema_def uuid_U1)

text \<open>
  C9, as the code has it. The handler runs the serializable transaction once. The verdicts the
  database would give to further attempts are never read, and a serialization conflict on the
  first attempt of a transfer that would otherwise go through is answered at once with
  500 "Internal server error", the store being left as it was.
\<close>

theorem transfer_conflict_not_retried:
  "transfer s sId rId amt key descr (c # cs) = transfer s sId rId amt key descr [c] \<and>
   (transferSchema sId rId amt key \<and> sId \<noteq> rId \<and> transaction_findUnique s key = None \<and>
    users s sId = Some su \<and> users s rId = Some ru \<and> amt \<le> balance su \<longrightarrow>
      transfer s sId rId amt key descr (True # cs)
        = (s, Response 500 (ErrorJson ''Internal server error'')))"
proof -
  have "transfer_unit s sId rId amt key descr (c # cs) = transfer_unit s sId rId amt key descr [c]"
    by (simp add: transfer_unit_def)
  then have "transfer s sId rId amt key descr (c # cs) = transfer s sId rId amt key descr [c]"
    by (simp add: transfer_def split: option.splits)
  moreover have "transferSchema sId rId amt key \<and> sId \<noteq> rId \<and>
      transaction_findUnique s key = None \<and> users s sId = Some su \<and>
      users s rId = Some ru \<and> amt \<le> balance su \<longrightarrow>
      transfer s sId rId amt key descr (True # cs)
        = (s, Response 500 (ErrorJson ''Internal server error''))"
    by (simp add: transfer_eq transaction_findUnique_def)
  ultimately show ?thesis by blast
qed

theorem transfer_conflict_not_retried_witness:
  "transferSchema U1 U2 5000 ''k3'' \<and> U1 \<noteq> U2 \<and> transaction_findUnique store0 ''k3'' = None \<and>
   getUserBalance store0 U1 = Some 70000 \<and> getUserBalance store0 U2 = Some 30000 \<and>
   (5000::int) \<le> 70000 \<and>
   transfer store0 U1 U2 5000 ''k3'' None [True, False, False]
     = (store0, Response 500 (ErrorJson ''Internal server error''))"
proof -
  have b: "transaction_findUnique store0 ''k3'' = None"
    by (simp add: transaction_findUnique_def find_store0)
  have d: "5000 \<le> balance \<lparr>email = ''u1@example.com'', name = ''U1'', balance = 70000\<rparr>"
    by simp
  note inst = transfer_conflict_not_retried [where s = store0 and sId = U1 and rId = U2
      and su = "\<lparr>email = ''u1@example.com'', name = ''U1'', balance = 70000\<rparr>"
      and ru = "\<lparr>email = ''u2@example.com'', name = ''U2'', balance = 30000\<rparr>"
      and amt = 5000 and key = "''k3''" and descr = None and cs = "[False, False]"]
  from inst b d users_store0 U1_neq_U2 schemas_hold(2) have
    "transfer store0 U1 U2 5000 ''k3'' None [True, False, False]
       = (store0, Response 500 (ErrorJson ''Internal server error''))"
    by blast
  with b show ?thesis
    by (simp add: schemas_hold U1_neq_U2 getUserBalance_def user_findUnique_def users_store0)
qed

text \<open>
  One conflict followed by a free second attempt: the caller gets the 500, although the same
  request without the conflict completes.
\<close>

theorem serialization_conflict_counterexample:
  "transfer store0 U1 U2 5000 ''k3'' None [True, False]
     = (store0, Response 500 (ErrorJson ''Internal server error'')) \<and>
   snd (transfer store0 U1 U2 5000 ''k3'' None [False])
     = Response 201 (TransactionJson
         \<lparr>tid = 2, ttype = TRANSFER, status = COMPLETED, amount = 5000,
          idempotencyKey = ''k3'', senderId = Some U1, receiverId = Some U2,
          description = Some ''Internal Transfer'', failureReason = None\<rparr>)"
  by (simp add: transfer_eq schemas_hold find_store0 users_store0 fresh_id_store0
        orDefault_def U1_neq_U2 Let_def)

section \<open>Withdrawals\<close>

text \<open>
  C6. A withdrawal refused by the external system leaves every balance as it was. When the
  request reaches the external system (the body passes the schema, the key is new, the account
  exists and holds at least the amount) the log grows by one row, a WITHDRAWAL of the account
  with status FAILED and the non-empty reason "External system rejected the withdrawal", and
  that row is the body of the answer, sent with code 400 as a rejection, not with the 500 of
  a server error.
\<close>

theorem failed_settlement_recorded:
  "users (fst (withdraw s userId amt key descr False)) = users s \<and>
   (withdrawSchema userId amt key \<and> transaction_findUnique s key = None \<and>
    users s userId = Some u \<and> amt \<le> balance u \<longrightarrow>
      (\<exists>t. withdraw s userId amt key descr False
              = (s\<lparr>transactions := transactions s @ [t]\<rparr>, Response 400 (TransactionJson t)) \<and>
           ttype t = WITHDRAWAL \<and> status t = FAILED \<and> idempotencyKey t = key \<and>
           amount t = amt \<and> senderId t = Some userId \<and>
           failureReason t = Some ''External system rejected the withdrawal'' \<and>
           failureReason t \<noteq> Some []) \<and>
      getUserBalance (fst (withdraw s userId amt key descr False)) userId = Some (balance u))"
proof -
  have "users (fst (withdraw s userId amt key descr False)) = users s"
    by (simp add: withdraw_eq Let_def split: option.splits)
  moreover have "withdrawSchema userId amt key \<and> transaction_findUnique s key = None \<and>
    users s userId = Some u \<and> amt \<le> balance u \<longrightarrow>
      (\<exists>t. withdraw s userId amt key descr False
              = (s\<lparr>transactions := transactions s @ [t]\<rparr>, Response 400 (TransactionJson t)) \<and>
           ttype t = WITHDRAWAL \<and> status t = FAILED \<and> idempotencyKey t = key \<and>
           amount t = amt \<and> senderId t = Some userId \<and>
           failureReason t = Some ''External system rejected the withdrawal'' \<and>
           failureReason t \<noteq> Some []) \<and>
      getUserBalance (fst (withdraw s userId amt key descr False)) userId = Some (balance u)"
    by (simp add: withdraw_eq transaction_findUnique_def Let_def getUserBalance_def
        user_findUnique_def)
  ultimately show ?thesis by blast
qed

theorem failed_settlement_recorded_witness:
  "withdrawSchema U1 5000 ''k3'' \<and> transaction_findUnique store0 ''k3'' = None \<and>
   getUserBalance store0 U1 = Some 70000 \<and> (5000::int) \<le> 70000 \<and>
   snd (withdraw store0 U1 5000 ''k3'' None False)
     = Response 400 (TransactionJson
         \<lparr>tid = 2, ttype = WITHDRAWAL, status = FAILED, amount = 5000,
          idempotencyKey = ''k3'', senderId = Some U1, receiverId = None,
          description = Some ''Withdrawal'',
          failureReason = Some ''External system rejected the withdrawal''\<rparr>) \<and>
   getUserBalance (fst (withdraw store0 U1 5000 ''k3'' None False)) U1 = Some 70000"
proof -
  have a: "withdrawSchema U1 5000 ''k3''"
    by (rule schemas_hold)
  have b: "transaction_findUnique store0 ''k3'' = None"
    by (simp add: transaction_findUnique_def find_store0)
  have c: "users store0 U1 = Some \<lparr>email = ''u1@example.com'', name = ''U1'', balance = 70000\<rparr>"
    by (rule users_store0)
  have d: "5000 \<le> balance \<lparr>email = ''u1@example.com'', name = ''U1'', balance = 70000\<rparr>"
    by simp
  have e: "snd (withdraw store0 U1 5000 ''k3'' None False)
     = Response 400 (TransactionJson
         \<lparr>tid = 2, ttype = WITHDRAWAL, status = FAILED, amount = 5000,
          idempotencyKey = ''k3'', senderId = Some U1, receiverId = None,
          description = Some ''Withdrawal'',
          failureReason = Some ''External system rejected the withdrawal''\<rparr>)"
    by (simp add: withdraw_eq schemas_hold find_store0 users_store0 fresh_id_store0
        orDefault_def Let_def)
  note inst = failed_settlement_recorded [where s = store0 and userId = U1 and amt = 5000
      and key = "''k3''" and descr = None
      and u = "\<lparr>email = ''u1@example.com'', name = ''U1'', balance = 70000\<rparr>"]
  from inst a b c d
  have "getUserBalance (fst (withdraw store0 U1 5000 ''k3'' None False)) U1 = Some 70000"
    by auto
  with a b c e show ?thesis
    by (simp add: getUserBalance_def user_findUnique_def)
qed

text \<open>
  C5, as the code has it. The PROCESSING row, the outcome of the external system, the final
  status and the balance change all belong to one database transaction: the handler commits
  at most once, its final store is that commit, and in a committed store the row of the
  request has its final status, COMPLETED or FAILED, together with the balance change that
  goes with it. No committed store holds the row as PROCESSING.
\<close>

theorem withdraw_single_commit:
  "length (withdraw_commits s userId amt key descr isSuccess) \<le> 1 \<and>
   fst (withdraw s userId amt key descr isSuccess)
     = last (s # withdraw_commits s userId amt key descr isSuccess) \<and>
   (\<forall>c \<in> set (withdraw_commits s userId amt key descr isSuccess).
      (\<forall>t \<in> set (transactions c). idempotencyKey t = key \<longrightarrow>
         status t = (if isSuccess then COMPLETED else FAILED)) \<and>
      (\<exists>u. users s userId = Some u \<and>
         users c = (if isSuccess then (users s)(userId \<mapsto> u\<lparr>balance := balance u - amt\<rparr>)
                    else users s)))"
  by (auto simp: withdraw_commits_def withdraw_def withdraw_check_def withdraw_unit_def
      prisma_transaction_def withdraw_tx_eq transaction_findUnique_def find_None_iff
      list_ex_iff Let_def
      split: option.splits if_splits)

theorem withdraw_single_commit_witness:
  "withdraw_commits store0 U1 5000 ''k3'' None True
     = [fst (withdraw store0 U1 5000 ''k3'' None True)] \<and>
   \<lparr>tid = 2, ttype = WITHDRAWAL, status = COMPLETED, amount = 5000,
     idempotencyKey = ''k3'', senderId = Some U1, receiverId = None,
     description = Some ''Withdrawal'', failureReason = None\<rparr>
     \<in> set (transactions (fst (withdraw store0 U1 5000 ''k3'' None True))) \<and>
   getUserBalance store0 U1 = Some 70000 \<and>
   getUserBalance (fst (withdraw store0 U1 5000 ''k3'' None True)) U1 = Some 65000"
proof -
  let ?c = "fst (withdraw store0 U1 5000 ''k3'' None True)"
  let ?t = "\<lparr>tid = 2, ttype = WITHDRAWAL, status = COMPLETED, amount = 5000,
     idempotencyKey = ''k3'', senderId = Some U1, receiverId = None,
     description = Some ''Withdrawal'', failureReason = None\<rparr>"
  note inst = withdraw_single_commit [where s = store0 and userId = U1 and amt = 5000
      and key = "''k3''" and descr = None and isSuccess = True]
  have commits: "withdraw_commits store0 U1 5000 ''k3'' None True = [?c]"
    by (simp add: withdraw_commits_def withdraw_def withdraw_unit_def prisma_transaction_def
        withdraw_check_k3 withdraw_k3_ok)
  have mem: "?t \<in> set (transactions ?c)"
    by (simp add: withdraw_def withdraw_unit_def prisma_transaction_def
        withdraw_check_k3 withdraw_k3_ok)
  from inst commits have
    "\<exists>u. users store0 U1 = Some u \<and> users ?c = (users store0)(U1 \<mapsto> u\<lparr>balance := balance u - 5000\<rparr>)"
    by simp
  then have "getUserBalance ?c U1 = Some 65000"
    by (auto simp: getUserBalance_def user_findUnique_def users_store0)
  with commits mem show ?thesis
    by (simp add: getUserBalance_def user_findUnique_def users_store0)
qed

text \<open>
  The statuses of the rows in each committed store, for a withdrawal of 50.00 from the first
  example account, accepted and refused by the external system.
\<close>

theorem processing_commit_counterexample:
  "map (map status \<circ> transactions) (withdraw_commits store0 U1 5000 ''k3'' None True)
     = [[COMPLETED, COMPLETED, COMPLETED]] \<and>
   map (map status \<circ> transactions) (withdraw_commits store0 U1 5000 ''k3'' None False)
     = [[COMPLETED, COMPLETED, FAILED]]"
  by (simp add: withdraw_commits_def withdraw_check_k3 withdraw_tx_eq users_store0
      list_ex_key_find find_store0 Let_def, simp add: store0_def)

section \<open>Duplicate keys\<close>

text \<open>
  C4, as the code has it. When the insert of the new row fails on the unique index of the
  idempotency key (the account exists, the balance check passes, a row with the key is
  already there), the database transaction is rolled back and the caller is answered
  500 "Internal server error"; the existing row is not fetched again.
\<close>

theorem duplicate_key_surfaces_as_500:
  "(users s userId = Some u \<and> list_ex (\<lambda>t. idempotencyKey t = key) (transactions s) \<longrightarrow>
      deposit_tx userId amt key descr s = Inl (PrismaError P2002) \<and>
      deposit_unit s userId amt key descr
        = (s, Response 500 (ErrorJson ''Internal server error''))) \<and>
   (userId \<noteq> rId \<and> users s userId = Some u \<and> users s rId = Some ru \<and> amt \<le> balance u \<and>
    list_ex (\<lambda>t. idempotencyKey t = key) (transactions s) \<longrightarrow>
      transfer_tx userId rId amt key descr s = Inl (PrismaError P2002) \<and>
      transfer_unit s userId rId amt key descr conflicts
        = (s, Response 500 (ErrorJson ''Internal server error''))) \<and>
   (users s userId = Some u \<and> amt \<le> balance u \<and>
    list_ex (\<lambda>t. idempotencyKey t = key) (transactions s) \<longrightarrow>
      withdraw_tx userId amt key descr isSuccess s = Inl (PrismaError P2002) \<and>
      withdraw_unit s userId amt key descr isSuccess
        = (s, Response 500 (ErrorJson ''Internal server error'')))"
  by (simp add: deposit_unit_def transfer_unit_def withdraw_unit_def prisma_transaction_def
      prisma_transaction_serializable_def deposit_tx_eq transfer_tx_eq withdraw_tx_eq
      deposit_catch_def transfer_catch_def withdraw_catch_def)

theorem duplicate_key_surfaces_as_500_witness:
  "getUserBalance store0 U1 = Some 70000 \<and> getUserBalance store0 U2 = Some 30000 \<and>
   U1 \<noteq> U2 \<and> (5000::int) \<le> 70000 \<and>
   transaction_findUnique store0 ''k2'' \<noteq> None \<and>
   deposit_unit store0 U1 5000 ''k2'' None
     = (store0, Response 500 (ErrorJson ''Internal server error'')) \<and>
   transfer_unit store0 U1 U2 5000 ''k2'' None []
     = (store0, Response 500 (ErrorJson ''Internal server error'')) \<and>
   withdraw_unit store0 U1 5000 ''k2'' None True
     = (store0, Response 500 (ErrorJson ''Internal server error''))"
proof -
  have k: "list_ex (\<lambda>t. idempotencyKey t = ''k2'') (transactions store0)"
    by (simp add: store0_def)
  have d: "5000 \<le> balance \<lparr>email = ''u1@example.com'', name = ''U1'', balance = 70000\<rparr>"
    by simp
  note inst = duplicate_key_surfaces_as_500 [where s = store0 and userId = U1 and rId = U2
      and u = "\<lparr>email = ''u1@example.com'', name = ''U1'', balance = 70000\<rparr>"
      and ru = "\<lparr>email = ''u2@example.com'', name = ''U2'', balance = 30000\<rparr>"
      and amt = 5000 and key = "''k2''" and descr = None and conflicts = "[]"
      and isSuccess = True]
  from inst k d users_store0 U1_neq_U2 have
    "deposit_unit store0 U1 5000 ''k2'' None
       = (store0, Response 500 (ErrorJson ''Internal server error'')) \<and>
     transfer_unit store0 U1 U2 5000 ''k2'' None []
       = (store0, Response 500 (ErrorJson ''Internal server error'')) \<and>
     withdraw_unit store0 U1 5000 ''k2'' None True
       = (store0, Response 500 (ErrorJson ''Internal server error''))"
    by blast
  then show ?thesis
    by (simp add: getUserBalance_def user_findUnique_def users_store0 U1_neq_U2
        transaction_findUnique_def find_store0)
qed

text \<open>
  Two identical deposits race: both pass the key lookup on the same store, the first one
  commits, and the insert of the second one fails.
\<close>

theorem duplicate_key_counterexample:
  "deposit_check store0 U1 5000 ''k3'' = None \<and>
   snd (deposit store0 U1 5000 ''k3'' None)
     = Response 201 (TransactionJson
         \<lparr>tid = 2, ttype = DEPOSIT, status = COMPLETED, amount = 5000,
          idempotencyKey = ''k3'', senderId = None, receiverId = Some U1,
          description = Some ''Deposit'', failureReason = None\<rparr>) \<and>
   deposit_tx U1 5000 ''k3'' None (fst (deposit store0 U1 5000 ''k3'' None))
     = Inl (PrismaError P2002) \<and>
   deposit_unit (fst (deposit store0 U1 5000 ''k3'' None)) U1 5000 ''k3'' None
     = (fst (deposit store0 U1 5000 ''k3'' None),
        Response 500 (ErrorJson ''Internal server error''))"
  by (simp add: deposit_k3 deposit_check_def schemas_hold transaction_findUnique_def
      find_store0 deposit_unit_def prisma_transaction_def deposit_tx_eq deposit_catch_def)

text \<open>
  C10, as the code has it. A request whose key is already recorded never changes the store.
  A deposit or a withdrawal that passes the schema, and a transfer that passes the schema and
  names two distinct accounts, is answered 200 with the recorded row, whatever its other
  arguments are. The same-account check of a transfer comes before the key lookup.
\<close>

theorem replay_by_key:
  assumes "transaction_findUnique s key = Some t"
  shows "fst (deposit s userId amt key descr) = s \<and>
         fst (transfer s userId rId amt key descr conflicts) = s \<and>
         fst (withdraw s userId amt key descr isSuccess) = s \<and>
         (depositSchema userId amt key \<longrightarrow>
            deposit s userId amt key descr = (s, Response 200 (TransactionJson t))) \<and>
         (transferSchema userId rId amt key \<and> userId \<noteq> rId \<longrightarrow>
            transfer s userId rId amt key descr conflicts
              = (s, Response 200 (TransactionJson t))) \<and>
         (withdrawSchema userId amt key \<longrightarrow>
            withdraw s userId amt key descr isSuccess = (s, Response 200 (TransactionJson t)))"
  using assms
  by (simp add: deposit_eq transfer_eq withdraw_eq transaction_findUnique_def)

theorem replay_by_key_witness:
  "transaction_findUnique store0 ''k2''
     = Some \<lparr>tid = 1, ttype = TRANSFER, status = COMPLETED, amount = 30000,
          idempotencyKey = ''k2'', senderId = Some U1, receiverId = Some U2,
          description = Some ''Internal Transfer'', failureReason = None\<rparr> \<and>
   depositSchema U2 99 ''k2'' \<and> transferSchema U2 U1 99 ''k2'' \<and> U2 \<noteq> U1 \<and>
   withdrawSchema U2 99 ''k2'' \<and>
   deposit store0 U2 99 ''k2'' (Some ''other'')
     = (store0, Response 200 (TransactionJson
          \<lparr>tid = 1, ttype = TRANSFER, status = COMPLETED, amount = 30000,
          idempotencyKey = ''k2'', senderId = Some U1, receiverId = Some U2,
          description = Some ''Internal Transfer'', failureReason = None\<rparr>)) \<and>
   transfer store0 U2 U1 99 ''k2'' (Some ''other'') [True]
     = (store0, Response 200 (TransactionJson
          \<lparr>tid = 1, ttype = TRANSFER, status = COMPLETED, amount = 30000,
          idempotencyKey = ''k2'', senderId = Some U1, receiverId = Some U2,
          description = Some ''Internal Transfer'', failureReason = None\<rparr>)) \<and>
   withdraw store0 U2 99 ''k2'' (Some ''other'') True
     = (store0, Response 200 (TransactionJson
          \<lparr>tid = 1, ttype = TRANSFER, status = COMPLETED, amount = 30000,
          idempotencyKey = ''k2'', senderId = Some U1, receiverId = Some U2,
          description = Some ''Internal Transfer'', failureReason = None\<rparr>))"
proof -
  have k: "transaction_findUnique store0 ''k2''
     = Some \<lparr>tid = 1, ttype = TRANSFER, status = COMPLETED, amount = 30000,
          idempotencyKey = ''k2'', senderId = Some U1, receiverId = Some U2,
          description = Some ''Internal Transfer'', failureReason = None\<rparr>"
    by (simp add: transaction_findUnique_def find_store0)
  have v: "depositSchema U2 99 ''k2''" "transferSchema U2 U1 99 ''k2''" "U2 \<noteq> U1"
    "withdrawSchema U2 99 ''k2''"
    using U1_neq_U2
    by (auto simp: depositSchema_def transferSchema_def withdrawSchema_def uuid_U1 uuid_U2)
  from replay_by_key [OF k, of U2 99 "Some ''other''" U1 "[True]" True] k v
  show ?thesis by simp
qed

text \<open>
  A transfer from an account to itself under a recorded key is rejected, not replayed.
\<close>

theorem replay_by_key_counterexample:
  "transferSchema U1 U1 5000 ''k2'' \<and>
   transaction_findUnique store0 ''k2''
     = Some \<lparr>tid = 1, ttype = TRANSFER, status = COMPLETED, amount = 30000,
          idempotencyKey = ''k2'', senderId = Some U1, receiverId = Some U2,
          description = Some ''Internal Transfer'', failureReason = None\<rparr> \<and>
   transfer store0 U1 U1 5000 ''k2'' None []
     = (store0, Response 400 (ErrorJson ''Invalid transfer''))"
  by (simp add: schemas_hold transaction_findUnique_def find_store0 transfer_eq)

end
